theory Spec2Isabelle
  imports Main "HOL-Library.Sublist" "HOL-Library.Multiset"
begin

section \<open>Errors\<close>

text \<open>
  A Go \<^verbatim>\<open>error\<close> value. \<open>Err s\<close> is an error with the text \<open>s\<close> (what
  \<^verbatim>\<open>fmt.Errorf\<close> without a verb, or a library, produces); \<open>Wrapped ctx e\<close> is
  \<^verbatim>\<open>fmt.Errorf(ctx + "%w", e)\<close>: the context text followed by the wrapped cause.
\<close>

datatype error = Err string | Wrapped string error

fun Error_text :: "error \<Rightarrow> string" where
  "Error_text (Err s) = s"
| "Error_text (Wrapped ctx e) = ctx @ Error_text e"

section \<open>Package email\<close>

subsection \<open>The client and the relay it talks to\<close>

record Client =
  Host :: string
  Port :: int
  Username :: string
  Password :: string
  From :: string

definition NewClient :: "string \<Rightarrow> int \<Rightarrow> string \<Rightarrow> string \<Rightarrow> string \<Rightarrow> Client" where
  "NewClient host port username password from =
     \<lparr>Host = host, Port = port, Username = username, Password = password, From = from\<rparr>"

text \<open>\<^verbatim>\<open>smtp.PlainAuth(identity, username, password, host)\<close>.\<close>

datatype auth = PlainAuth string string string string

record tls_config =
  InsecureSkipVerify :: bool
  ServerName :: string

text \<open>
  Everything \<^verbatim>\<open>Send\<close> and \<^verbatim>\<open>sendUsingTLS\<close> do outside the process: the calls
  into \<^verbatim>\<open>net/smtp\<close>, \<^verbatim>\<open>crypto/tls\<close> and the logger, with the arguments
  the code passes.
\<close>

datatype op =
    SendMail string auth string "string list" string
  | TlsDial string string tls_config
  | SmtpNewClient string
  | Extension string
  | Auth auth
  | Mail string
  | Rcpt string
  | Data
  | Write string
  | CloseWriter
  | Quit
  | ClientClose
  | ConnClose
  | LogWarn string string error

datatype reply = Ok | Failed error | Has bool

datatype event = Event op reply

fun op_of :: "event \<Rightarrow> op" where
  "op_of (Event p r) = p"

text \<open>
  The relay and the network are not part of the program. They are a parameter: any
  function from what has happened so far to the outcome of the next call
  (\<open>None\<close> is a \<^verbatim>\<open>nil\<close> error).
\<close>

record relay =
  respond :: "event list \<Rightarrow> op \<Rightarrow> error option"
  extension :: "event list \<Rightarrow> string \<Rightarrow> bool"

text \<open>
  A piece of the program: from the events before it to its error and the events it adds.
\<close>

type_synonym action = "event list \<Rightarrow> error option \<times> event list"

definition reply_of :: "error option \<Rightarrow> reply" where
  "reply_of r = (case r of None \<Rightarrow> Ok | Some e \<Rightarrow> Failed e)"

text \<open>
  \<^verbatim>\<open>if err = call; err != nil { return fmt.Errorf(ctx + "%w", err) }\<close>
\<close>

definition stage :: "string \<Rightarrow> relay \<Rightarrow> op \<Rightarrow> action" where
  "stage ctx R p h =
     (case respond R h p of
        None \<Rightarrow> (None, [Event p Ok])
      | Some e \<Rightarrow> (Some (Wrapped ctx e), [Event p (Failed e)]))"

text \<open>Sequencing with early return: the second part runs only when the first gave no error.\<close>

definition seq :: "action \<Rightarrow> action \<Rightarrow> action" where
  "seq f g h =
     (case f h of
        (Some e, es) \<Rightarrow> (Some e, es)
      | (None, es) \<Rightarrow> (case g (h @ es) of (r, es') \<Rightarrow> (r, es @ es')))"

text \<open>
  \<^verbatim>\<open>defer x.Close()\<close>: the call runs when the rest of the function has returned,
  whatever it returned, and its own error is dropped.
\<close>

definition deferred :: "relay \<Rightarrow> op \<Rightarrow> action \<Rightarrow> action" where
  "deferred R p f h =
     (case f h of (r, es) \<Rightarrow> (r, es @ [Event p (reply_of (respond R (h @ es) p))]))"

subsection \<open>sendUsingTLS\<close>

text \<open>
  \<^verbatim>\<open>if auth != nil { if ok, _ := client.Extension("AUTH"); ok {
       if err = client.Auth(auth); err != nil { return fmt.Errorf("auth failed: %w", err) } } }\<close>
\<close>

definition auth_stage :: "relay \<Rightarrow> auth option \<Rightarrow> action" where
  "auth_stage R a h =
     (case a of
        None \<Rightarrow> (None, [])
      | Some au \<Rightarrow>
          (let ok = extension R h ''AUTH''; ev = Event (Extension ''AUTH'') (Has ok) in
           if ok then
             (case stage ''auth failed: '' R (Auth au) (h @ [ev]) of (r, es) \<Rightarrow> (r, ev # es))
           else (None, [ev])))"

text \<open>The loop over the recipients: it returns at the first one the relay rejects.\<close>

fun rcpt_loop :: "relay \<Rightarrow> string list \<Rightarrow> action" where
  "rcpt_loop R [] h = (None, [])"
| "rcpt_loop R (addr # rest) h =
     (case respond R h (Rcpt addr) of
        Some e \<Rightarrow>
          (Some (Wrapped (''rcpt to '' @ addr @ '' failed: '') e), [Event (Rcpt addr) (Failed e)])
      | None \<Rightarrow>
          (case rcpt_loop R rest (h @ [Event (Rcpt addr) Ok]) of
             (r, es) \<Rightarrow> (r, Event (Rcpt addr) Ok # es)))"

text \<open>
  The data phase and the end of the session: \<^verbatim>\<open>client.Data()\<close>, \<^verbatim>\<open>wc.Write(msg)\<close>,
  \<^verbatim>\<open>wc.Close()\<close>, \<^verbatim>\<open>client.Quit()\<close>, each returning its own error.
\<close>

definition transmit :: "relay \<Rightarrow> string \<Rightarrow> action" where
  "transmit R msg =
     seq (stage ''data command failed: '' R Data)
    (seq (stage ''write message failed: '' R (Write msg))
    (seq (stage ''close writer failed: '' R CloseWriter)
         (stage ''quit failed: '' R Quit)))"

text \<open>What \<^verbatim>\<open>sendUsingTLS\<close> does once the SMTP client exists.\<close>

definition session :: "relay \<Rightarrow> auth option \<Rightarrow> string \<Rightarrow> string list \<Rightarrow> string \<Rightarrow> action" where
  "session R a from to msg =
     seq (auth_stage R a)
    (seq (stage ''mail from failed: '' R (Mail from))
    (seq (rcpt_loop R to)
         (transmit R msg)))"

definition sendUsingTLS ::
  "Client \<Rightarrow> relay \<Rightarrow> string \<Rightarrow> auth option \<Rightarrow> string \<Rightarrow> string list \<Rightarrow> string \<Rightarrow> action"
where
  "sendUsingTLS c R addr a from to msg =
     seq (stage ''tls dial: '' R
            (TlsDial ''tcp'' addr \<lparr>InsecureSkipVerify = False, ServerName = Host c\<rparr>))
    (deferred R ConnClose
      (seq (stage ''new smtp client: '' R (SmtpNewClient (Host c)))
      (deferred R ClientClose
        (session R a from to msg))))"

subsection \<open>Send\<close>

definition CRLF :: string where
  "CRLF = [CHR 0x0D, CHR 0x0A]"

text \<open>\<^verbatim>\<open>strings.Join\<close>.\<close>

fun Join :: "string list \<Rightarrow> string \<Rightarrow> string" where
  "Join [] sep = []"
| "Join [x] sep = x"
| "Join (x # y # ys) sep = x @ sep @ Join (y # ys) sep"

text \<open>\<^verbatim>\<open>strconv.Itoa\<close>: the decimal digits, after a minus sign when negative.\<close>

fun digits :: "nat \<Rightarrow> string" where
  "digits n =
     (if n < 10 then [char_of (48 + n)] else digits (n div 10) @ [char_of (48 + n mod 10)])"

declare digits.simps [simp del]

definition Itoa :: "int \<Rightarrow> string" where
  "Itoa i = (if i < 0 then CHR ''-'' # digits (nat (- i)) else digits (nat i))"

text \<open>\<^verbatim>\<open>net.JoinHostPort\<close>: a host with a colon in it goes between brackets.\<close>

definition JoinHostPort :: "string \<Rightarrow> string \<Rightarrow> string" where
  "JoinHostPort host port =
     (if CHR '':'' \<in> set host then ''['' @ host @ '']:'' @ port else host @ '':'' @ port)"

definition sender :: "Client \<Rightarrow> string" where
  "sender c = (if From c = [] then Username c else From c)"

definition headers :: "Client \<Rightarrow> string list \<Rightarrow> string \<Rightarrow> (string \<rightharpoonup> string)" where
  "headers c to subject =
     Map.empty
       (''From'' \<mapsto> sender c,
        ''To'' \<mapsto> Join to '','',
        ''Subject'' \<mapsto> subject,
        ''MIME-Version'' \<mapsto> ''1.0'',
        ''Content-Type'' \<mapsto> ''text/html; charset='' @ [CHR 0x22] @ ''utf-8'' @ [CHR 0x22])"

text \<open>
  \<^verbatim>\<open>for k, v := range headers { msg.WriteString(fmt.Sprintf("%s: %s\r\n", k, v)) }\<close>

  Go leaves the order in which \<^verbatim>\<open>range\<close> visits a map unspecified, and the runtime
  starts each loop at a random place. The order this loop took is the parameter \<open>ks\<close>:
  the keys as the loop met them. \<open>range_order\<close> says that \<open>ks\<close> is an order a loop
  over the map can take: every key once.
\<close>

definition header_line :: "string \<Rightarrow> string \<Rightarrow> string" where
  "header_line k v = k @ '': '' @ v @ CRLF"

fun write_headers :: "(string \<rightharpoonup> string) \<Rightarrow> string list \<Rightarrow> string \<Rightarrow> string" where
  "write_headers hs [] msg = msg"
| "write_headers hs (k # ks) msg = write_headers hs ks (msg @ header_line k (the (hs k)))"

definition range_order :: "(string \<rightharpoonup> string) \<Rightarrow> string list \<Rightarrow> bool" where
  "range_order hs ks = (distinct ks \<and> set ks = dom hs)"

definition envelope :: "Client \<Rightarrow> string list \<Rightarrow> string list \<Rightarrow> string \<Rightarrow> string \<Rightarrow> string" where
  "envelope c ks to subject body = write_headers (headers c to subject) ks [] @ CRLF @ body"

definition smtp_addr :: "Client \<Rightarrow> string" where
  "smtp_addr c = JoinHostPort (Host c) (Itoa (Port c))"

definition plain_auth :: "Client \<Rightarrow> auth" where
  "plain_auth c = PlainAuth [] (Username c) (Password c) (Host c)"

definition fallback_warning :: string where
  "fallback_warning = ''smtp.SendMail failed, falling back to direct TLS''"

definition Send ::
  "Client \<Rightarrow> string list \<Rightarrow> relay \<Rightarrow> string list \<Rightarrow> string \<Rightarrow> string \<Rightarrow> action"
where
  "Send c ks R to subject body h =
     (if length to = 0 then (Some (Err ''no recipients specified''), [])
      else
        (let from = sender c;
             msg = envelope c ks to subject body;
             addr = smtp_addr c;
             a = plain_auth c
         in
           if Port c = 465 then sendUsingTLS c R addr (Some a) from to msg h
           else
             (case respond R h (SendMail addr a from to msg) of
                Some err \<Rightarrow>
                  (let es = [Event (SendMail addr a from to msg) (Failed err),
                             Event (LogWarn fallback_warning ''error'' err) Ok]
                   in case sendUsingTLS c R addr (Some a) from to msg (h @ es) of
                        (r, es') \<Rightarrow> (r, es @ es'))
              | None \<Rightarrow> (None, [Event (SendMail addr a from to msg) Ok]))))"

definition otp_body :: "string \<Rightarrow> string" where
  "otp_body code =
     ''<p>Your verification code is <strong>'' @ code
       @ ''</strong>. It will expire in 10 minutes.</p>''"

definition SendOTP :: "Client \<Rightarrow> string list \<Rightarrow> relay \<Rightarrow> string \<Rightarrow> string \<Rightarrow> action" where
  "SendOTP c ks R to code h = Send c ks R [to] ''Your verification code'' (otp_body code) h"

definition reset_body :: "string \<Rightarrow> string" where
  "reset_body codeOrLink =
     ''<p>We received a request to reset your password. Use the code below or click the link:</p><p><strong>''
       @ codeOrLink @ ''</strong></p>''"

definition SendPasswordReset ::
  "Client \<Rightarrow> string list \<Rightarrow> relay \<Rightarrow> string \<Rightarrow> string \<Rightarrow> action"
where
  "SendPasswordReset c ks R to codeOrLink h =
     Send c ks R [to] ''Password reset request'' (reset_body codeOrLink) h"

section \<open>Package password\<close>

text \<open>
  \<^verbatim>\<open>golang.org/x/crypto/bcrypt\<close> is a library outside the repository. \<^verbatim>\<open>Hash\<close> and
  \<^verbatim>\<open>Check\<close> take it as a parameter: its two functions, with the types they have in Go
  (the salt it draws at random is inside \<open>GenerateFromPassword\<close>).
\<close>

record bcrypt =
  GenerateFromPassword :: "string \<Rightarrow> int \<Rightarrow> error + string"
  CompareHashAndPassword :: "string \<Rightarrow> string \<Rightarrow> error option"

definition DefaultCost :: int where
  "DefaultCost = 10"

text \<open>The process environment; \<^verbatim>\<open>os.Getenv\<close> gives the empty string for an unset variable.\<close>

type_synonym environ = "string \<rightharpoonup> string"

definition Getenv :: "environ \<Rightarrow> string \<Rightarrow> string" where
  "Getenv env k = (case env k of None \<Rightarrow> [] | Some v \<Rightarrow> v)"

text \<open>
  \<^verbatim>\<open>strconv.Atoi\<close>: an optional sign, then one decimal digit or more and nothing else,
  the value within the 64-bit \<^verbatim>\<open>int\<close>. \<open>None\<close> is a non-nil error.
\<close>

definition is_digit :: "char \<Rightarrow> bool" where
  "is_digit ch = (48 \<le> (of_char ch :: nat) \<and> (of_char ch :: nat) \<le> 57)"

fun digits_value :: "string \<Rightarrow> nat \<Rightarrow> nat" where
  "digits_value [] n = n"
| "digits_value (ch # rest) n = digits_value rest (n * 10 + (of_char ch - 48))"

definition Atoi :: "string \<Rightarrow> int option" where
  "Atoi s =
     (let neg = (s \<noteq> [] \<and> hd s = CHR ''-'');
          ds = (if s \<noteq> [] \<and> (hd s = CHR ''-'' \<or> hd s = CHR ''+'') then tl s else s)
      in
        if ds = [] \<or> \<not> list_all is_digit ds then None
        else
          (let n = int (digits_value ds 0); v = (if neg then - n else n) in
           if v < - (2 ^ 63) \<or> 2 ^ 63 - 1 < v then None else Some v))"

text \<open>The cost \<^verbatim>\<open>Hash\<close> hands to bcrypt: lines 11 to 16.\<close>

definition hash_cost :: "environ \<Rightarrow> int" where
  "hash_cost env =
     (let c = Getenv env ''BCRYPT_COST'' in
      if c \<noteq> [] then (case Atoi c of Some parsed \<Rightarrow> parsed | None \<Rightarrow> DefaultCost)
      else DefaultCost)"

definition Hash :: "bcrypt \<Rightarrow> environ \<Rightarrow> string \<Rightarrow> string \<times> error option" where
  "Hash B env password =
     (case GenerateFromPassword B password (hash_cost env) of
        Inl err \<Rightarrow> ([], Some err)
      | Inr hashedPassword \<Rightarrow> (hashedPassword, None))"

definition Check :: "bcrypt \<Rightarrow> string \<Rightarrow> string \<Rightarrow> bool" where
  "Check B password hash = (CompareHashAndPassword B hash password = None)"

section \<open>Vocabulary for the properties\<close>

definition rcpt_ok :: "string list \<Rightarrow> event list" where
  "rcpt_ok xs = map (\<lambda>x. Event (Rcpt x) Ok) xs"

fun data_phase_op :: "op \<Rightarrow> bool" where
  "data_phase_op Data = True"
| "data_phase_op (Write m) = True"
| "data_phase_op CloseWriter = True"
| "data_phase_op p = False"

fun handshake_op :: "op \<Rightarrow> bool" where
  "handshake_op (Extension s) = True"
| "handshake_op (Auth au) = True"
| "handshake_op (Mail f) = True"
| "handshake_op p = False"

fun is_SendMail :: "op \<Rightarrow> bool" where
  "is_SendMail (SendMail addr a from to msg) = True"
| "is_SendMail p = False"

text \<open>The recipients declared in a run, in order, and the messages written.\<close>

fun declared :: "event list \<Rightarrow> string list" where
  "declared [] = []"
| "declared (Event (Rcpt x) r # es) = x # declared es"
| "declared (ev # es) = declared es"

fun written :: "event list \<Rightarrow> string list" where
  "written [] = []"
| "written (Event (Write m) r # es) = m # written es"
| "written (ev # es) = written es"

definition tls_dial :: "Client \<Rightarrow> op" where
  "tls_dial c = TlsDial ''tcp'' (smtp_addr c) \<lparr>InsecureSkipVerify = False, ServerName = Host c\<rparr>"

subsection \<open>Examples to run the properties on\<close>

definition mailer :: "int \<Rightarrow> Client" where
  "mailer port = NewClient ''smtp.example.com'' port ''noreply@example.com'' ''hunter2'' []"

definition abc :: "string list" where
  "abc = [''a@example.com'', ''b@example.com'', ''c@example.com'']"

definition order_a :: "string list" where
  "order_a = [''From'', ''To'', ''Subject'', ''MIME-Version'', ''Content-Type'']"

definition order_b :: "string list" where
  "order_b = [''Subject'', ''MIME-Version'', ''Content-Type'', ''From'', ''To'']"

text \<open>A relay that rejects one recipient and accepts everything else.\<close>

definition rejecting :: "string \<Rightarrow> relay" where
  "rejecting x =
     \<lparr>respond = (\<lambda>h p. case p of
          Rcpt y \<Rightarrow> if y = x then Some (Err ''550 mailbox unavailable'') else None
        | _ \<Rightarrow> None),
      extension = (\<lambda>h s. True)\<rparr>"

text \<open>A relay that takes the message and then fails the QUIT.\<close>

definition quit_failing :: relay where
  "quit_failing =
     \<lparr>respond = (\<lambda>h p. case p of Quit \<Rightarrow> Some (Err ''421 closing'') | _ \<Rightarrow> None),
      extension = (\<lambda>h s. False)\<rparr>"

text \<open>A relay without STARTTLS: the one-shot send fails, implicit TLS works.\<close>

definition tls_only :: relay where
  "tls_only =
     \<lparr>respond = (\<lambda>h p. case p of
          SendMail addr a from to msg \<Rightarrow> Some (Err ''EOF'')
        | _ \<Rightarrow> None),
      extension = (\<lambda>h s. True)\<rparr>"

text \<open>A relay that is down: both attempts fail, each with its own error.\<close>

definition unreachable :: relay where
  "unreachable =
     \<lparr>respond = (\<lambda>h p. case p of
          SendMail addr a from to msg \<Rightarrow> Some (Err ''dial tcp: connection refused'')
        | TlsDial n addr cfg \<Rightarrow> Some (Err ''i/o timeout'')
        | _ \<Rightarrow> None),
      extension = (\<lambda>h s. True)\<rparr>"

section \<open>Properties of Send\<close>

text \<open>
  C6. \<^verbatim>\<open>Send\<close> with an empty recipient list returns the error
  "no recipients specified" and does nothing outside the process: it adds no event,
  whatever the configuration, the relay and what happened before.
\<close>

theorem Send_no_recipients:
  "Send c ks R [] subject body h = (Some (Err ''no recipients specified''), [])"
  by (simp add: Send_def)

end
